theory Spec2Isabelle
  imports Complex_Main "HOL-Library.Multiset"
begin

section \<open>Python values shared by the three modules\<close>

text \<open>
  Every \<^verbatim>\<open>raise\<close>, failed \<^verbatim>\<open>assert\<close> and library exception of the source is a value
  of \<open>exit\<close>; a function that can raise returns \<open>exit + 'a\<close> with \<open>Inl\<close> for the exception.
  \<open>SuperGet\<close> is not an exception: it marks the one place where \<^verbatim>\<open>WrappedMD17.get\<close> hands
  the call to \<^verbatim>\<open>super().get(idx)\<close>, which is library code.
\<close>

datatype exit = IndexError | ValueError | ZeroDivisionError | AssertionError
  | AttributeError | SuperGet

text \<open>A list comprehension whose element expression can raise: the first exception wins.\<close>

fun collect :: "(exit + 'a) list \<Rightarrow> exit + 'a list" where
  "collect [] = Inr []"
| "collect (Inl e # rs) = Inl e"
| "collect (Inr v # rs) = (case collect rs of Inl e \<Rightarrow> Inl e | Inr vs \<Rightarrow> Inr (v # vs))"


section \<open>master\_loader.py: join\_dataset\_splits\<close>

text \<open>
  A PyG in-memory dataset, as far as \<^verbatim>\<open>join_dataset_splits\<close> touches it. \<open>stored\<close> is the
  collated storage (\<^verbatim>\<open>data\<close>, \<^verbatim>\<open>slices\<close>) read as the list of records it holds;
  \<open>ds_indices\<close> is \<^verbatim>\<open>_indices\<close> (\<open>None\<close> unless the dataset is a subset view such as
  \<^verbatim>\<open>ds[[2, 0]]\<close>); \<open>ds_data_list\<close> is the per-index cache \<^verbatim>\<open>_data_list\<close>; \<open>split_idxs\<close> is
  the attribute the function adds.
\<close>

record 'a pyg_dataset =
  stored :: "'a list"
  ds_indices :: "nat list option"
  ds_data_list :: "'a option list option"
  split_idxs :: "nat list list option"

text \<open>\<^verbatim>\<open>indices()\<close> is \<^verbatim>\<open>range(self.len())\<close> unless \<^verbatim>\<open>_indices\<close> is set, and \<^verbatim>\<open>len(ds)\<close>
  (PyG's \<^verbatim>\<open>__len__\<close>) is \<^verbatim>\<open>len(self.indices())\<close>.\<close>

definition indices :: "'a pyg_dataset \<Rightarrow> nat list" where
  "indices ds = (case ds_indices ds of None \<Rightarrow> [0..<length (stored ds)] | Some idx \<Rightarrow> idx)"

definition len_ds :: "'a pyg_dataset \<Rightarrow> nat" where
  "len_ds ds = length (indices ds)"

text \<open>
  \<^verbatim>\<open>ds.get(i)\<close> reads the storage by position, not through the view. The library's
  \<^verbatim>\<open>InMemoryDataset.get\<close> returns the one stored record for every index when the storage
  holds a single record, and raises IndexError past the end of a longer storage.
\<close>

definition get_ds :: "'a pyg_dataset \<Rightarrow> nat \<Rightarrow> exit + 'a" where
  "get_ds ds i =
     (if length (stored ds) = 1 then Inr (stored ds ! 0)
      else if i < length (stored ds) then Inr (stored ds ! i)
      else Inl IndexError)"

text \<open>The items of a dataset as its users see them: \<^verbatim>\<open>ds[k]\<close> is
  \<^verbatim>\<open>ds.get(ds.indices()[k])\<close>.\<close>

definition ds_items :: "'a pyg_dataset \<Rightarrow> exit + 'a list" where
  "ds_items ds = collect (map (get_ds ds) (indices ds))"

text \<open>\<^verbatim>\<open>collate(data_list)\<close> packs the records into one storage; it reads
  \<^verbatim>\<open>data_list[0]\<close> and so raises IndexError on an empty list.\<close>

definition collate :: "'a list \<Rightarrow> exit + 'a list" where
  "collate data_list = (if data_list = [] then Inl IndexError else Inr data_list)"

text \<open>
  \<^verbatim>\<open>
  def join_dataset_splits(datasets):
      assert len(datasets) == 3, "Expecting train, val, test datasets"
      n1, n2, n3 = len(datasets[0]), len(datasets[1]), len(datasets[2])
      data_list = [datasets[0].get(i) for i in range(n1)] + \
                  [datasets[1].get(i) for i in range(n2)] + \
                  [datasets[2].get(i) for i in range(n3)]
      datasets[0]._indices = None
      datasets[0]._data_list = data_list
      datasets[0].data, datasets[0].slices = datasets[0].collate(data_list)
      split_idxs = [list(range(n1)),
                    list(range(n1, n1 + n2)),
                    list(range(n1 + n2, n1 + n2 + n3))]
      datasets[0].split_idxs = split_idxs
      return datasets[0]
  \<close>
  The function mutates and returns \<^verbatim>\<open>datasets[0]\<close>; the model returns the updated record.
  Assigning \<^verbatim>\<open>.data\<close> goes through the library's property setter, which resets
  \<^verbatim>\<open>_data_list\<close> to \<^verbatim>\<open>None\<close>, so the cache assigned one line earlier does not survive.
\<close>

definition join_dataset_splits :: "'a pyg_dataset list \<Rightarrow> exit + 'a pyg_dataset" where
  "join_dataset_splits datasets =
     (if length datasets \<noteq> 3 then Inl AssertionError
      else
        let d0 = datasets ! 0; d1 = datasets ! 1; d2 = datasets ! 2;
            n1 = len_ds d0; n2 = len_ds d1; n3 = len_ds d2
        in case collect (map (get_ds d0) [0..<n1] @ map (get_ds d1) [0..<n2]
                           @ map (get_ds d2) [0..<n3]) of
             Inl e \<Rightarrow> Inl e
           | Inr data_list \<Rightarrow>
              (case collate data_list of
                 Inl e \<Rightarrow> Inl e
               | Inr packed \<Rightarrow>
                   Inr (d0\<lparr>ds_indices := None,
                           ds_data_list := None,
                           stored := packed,
                           split_idxs := Some [[0..<n1], [n1..<n1 + n2],
                                               [n1 + n2..<n1 + n2 + n3]]\<rparr>)))"


section \<open>wrapped\_md17.py\<close>

text \<open>
  Tensors hold IEEE floats in the source; the model computes with exact reals, so a value
  stands for a finite float and rounding error is not modelled. An MD17 item is a PyG
  \<^verbatim>\<open>Data\<close> object with atomic numbers \<^verbatim>\<open>z\<close>, positions \<^verbatim>\<open>pos\<close>, the scalar \<^verbatim>\<open>energy\<close>
  and \<^verbatim>\<open>force\<close>. The transform \<^verbatim>\<open>compute_edge_indices_norm\<close> is library code:
  \<^verbatim>\<open>RadiusGraph\<close> assigns \<^verbatim>\<open>edge_index\<close> from the positions and \<^verbatim>\<open>Distance\<close> assigns \<^verbatim>\<open>edge_attr\<close>,
  and neither writes another attribute. What the two compute is the parameter \<open>edges\<close> of
  the model: from an item to its \<^verbatim>\<open>edge_index\<close> and \<^verbatim>\<open>edge_attr\<close>.
\<close>

record md17_data =
  md_z :: "nat list"
  md_pos :: "(real \<times> real \<times> real) list"
  md_energy :: real
  md_force :: "(real \<times> real \<times> real) list"
  md_edge_index :: "(nat \<times> nat) list"
  md_edge_attr :: "real list list"

text \<open>The \<^verbatim>\<open>Data(x=..., pos=..., edge_index=..., edge_attr=..., edge_weight=..., y=..., z=...)\<close>
  that \<^verbatim>\<open>get\<close> builds.\<close>

record data =
  d_x :: "nat list list"
  d_pos :: "(real \<times> real \<times> real) list"
  d_edge_index :: "(nat \<times> nat) list"
  d_edge_attr :: "real list list"
  d_edge_weight :: "real list"
  d_y :: real
  d_z :: "nat list"

text \<open>The dict with the keys \<^verbatim>\<open>'train'\<close>, \<^verbatim>\<open>'val'\<close>, \<^verbatim>\<open>'test'\<close>.\<close>

record splitmap =
  train :: "nat list"
  val :: "nat list"
  test :: "nat list"

text \<open>
  The attributes of a \<^verbatim>\<open>WrappedMD17\<close> object. \<open>mean_energy\<close> is \<open>None\<close> until \<^verbatim>\<open>__init__\<close>
  assigns it. \<open>data_list\<close> is \<^verbatim>\<open>_data_list\<close>: \<open>None\<close>, or one optional record per index.
  \<open>has_data\<close> is the truth value of \<^verbatim>\<open>self._data\<close>; \<^verbatim>\<open>InMemoryDataset.__init__\<close> sets
  \<^verbatim>\<open>_data\<close> to \<^verbatim>\<open>None\<close> and nothing in the class assigns it. \<open>chain_log\<close> is not an
  attribute of the source: it records, in call order, the indices for which \<^verbatim>\<open>get\<close> ran the
  fetch (\<^verbatim>\<open>self.md17_dataset[idx]\<close>) and the transform, so that "without recomputation"
  can be stated.
\<close>

record wrapped_md17 =
  md_name :: string
  is_train :: bool
  md17_dataset :: "md17_data list"
  splits :: "splitmap option"
  mean_energy :: "real option"
  data_list :: "data option list option"
  has_data :: bool
  chain_log :: "nat list"

text \<open>
  \<^verbatim>\<open>
  def normalize_md17_energy(dataset, train_indices):
      mean_energy = 0.0
      for idx in train_indices:
          item = dataset[idx]
          mean_energy += item.energy
      mean_energy /= len(train_indices)
      return mean_energy
  \<close>
  \<^verbatim>\<open>dataset[idx]\<close> raises IndexError past the end of the dataset, and \<^verbatim>\<open>0.0 / 0\<close> raises
  ZeroDivisionError.
\<close>

fun sum_energy :: "md17_data list \<Rightarrow> nat list \<Rightarrow> real \<Rightarrow> exit + real" where
  "sum_energy dataset [] acc = Inr acc"
| "sum_energy dataset (idx # rest) acc =
     (if idx < length dataset then sum_energy dataset rest (acc + md_energy (dataset ! idx))
      else Inl IndexError)"

definition normalize_md17_energy :: "md17_data list \<Rightarrow> nat list \<Rightarrow> exit + real" where
  "normalize_md17_energy dataset train_indices =
     (case sum_energy dataset train_indices 0 of
        Inl e \<Rightarrow> Inl e
      | Inr energy_sum \<Rightarrow>
          if length train_indices = 0 then Inl ZeroDivisionError
          else Inr (energy_sum / real (length train_indices)))"

text \<open>\<^verbatim>\<open>def len(self): return 1000\<close>\<close>

definition len :: "wrapped_md17 \<Rightarrow> nat" where
  "len self = 1000"

text \<open>
  The three slices of \<^verbatim>\<open>get_idx_split\<close>, as a function of the shuffled index list:
  \<^verbatim>\<open>
      num_train = int(0.8 * len(all_indices))
      num_val = int(0.1 * len(all_indices))
      num_test = len(all_indices) - num_train - num_val
      self.splits = {
          'train': all_indices[:num_train],
          'val': all_indices[num_train:num_train + num_val],
          'test': all_indices[num_train + num_val:]
      }
  \<close>
  \<^verbatim>\<open>int(0.8 * n)\<close> is modelled by the floor of the exact product. The doubles nearest to 0.8
  and 0.1 lie above them by less than one part in \<open>2^53\<close>, so the float product truncates
  to the same integer for every length below \<open>2^50\<close>.
\<close>

definition idx_split_of :: "nat list \<Rightarrow> splitmap" where
  "idx_split_of all_indices =
     (let num_train = nat \<lfloor>(8 / 10) * real (length all_indices)\<rfloor>;
          num_val = nat \<lfloor>(1 / 10) * real (length all_indices)\<rfloor>
      in \<lparr>train = take num_train all_indices,
          val = take num_val (drop num_train all_indices),
          test = drop (num_train + num_val) all_indices\<rparr>)"

text \<open>
  \<^verbatim>\<open>
  def get_idx_split(self):
      if self.splits is not None:
          return self.splits
      all_indices = list(range(self.len()))
      np.random.shuffle(all_indices)
      ...
      return self.splits
  \<close>
  \<^verbatim>\<open>np.random.shuffle\<close> reads and advances NumPy's process-global generator. The model
  passes the generator state \<open>g\<close> in and out, and takes the library's shuffle as the
  parameter \<open>shuffle\<close>: from a generator state and a list to the shuffled list and the
  next state. The method has no parameter besides \<^verbatim>\<open>self\<close>.
\<close>

definition get_idx_split ::
  "('g \<Rightarrow> nat list \<Rightarrow> nat list \<times> 'g) \<Rightarrow> 'g \<Rightarrow> wrapped_md17 \<Rightarrow> splitmap \<times> wrapped_md17 \<times> 'g" where
  "get_idx_split shuffle g self =
     (case splits self of
        Some s \<Rightarrow> (s, self, g)
      | None \<Rightarrow>
          let (all_indices, g') = shuffle g [0..<len self];
              s = idx_split_of all_indices
          in (s, self\<lparr>splits := Some s\<rparr>, g'))"

text \<open>
  \<^verbatim>\<open>
  def __init__(self, root, name, train=True, ...):
      ...
      self.md17_dataset = MD17(root=root, name=name)
      self.compute_edge_indices_norm = T.Compose([...])
      self.splits = None
      splits = self.get_idx_split()
      train_indices = splits['train'] if 'train' in splits else list(range(self.len()))
      self.mean_energy = normalize_md17_energy(self.md17_dataset, train_indices=train_indices)
      self.splits = splits
  \<close>
  \<open>md17\<close> is the loaded MD17 dataset; \<open>init_attrs\<close> is the object when \<^verbatim>\<open>get_idx_split\<close>
  is called. A \<open>splitmap\<close> always has the key \<^verbatim>\<open>'train'\<close>, so the \<^verbatim>\<open>else\<close> of the
  conditional expression is never taken.
\<close>

definition init_attrs :: "string \<Rightarrow> bool \<Rightarrow> md17_data list \<Rightarrow> wrapped_md17" where
  "init_attrs nm tr md17 =
     \<lparr>md_name = nm, is_train = tr, md17_dataset = md17, splits = None,
      mean_energy = None, data_list = None, has_data = False, chain_log = []\<rparr>"

definition init ::
  "('g \<Rightarrow> nat list \<Rightarrow> nat list \<times> 'g) \<Rightarrow> 'g \<Rightarrow> string \<Rightarrow> bool \<Rightarrow> md17_data list
     \<Rightarrow> exit + wrapped_md17 \<times> 'g" where
  "init shuffle g nm tr md17 =
     (let self0 = init_attrs nm tr md17;
          (s, self1, g') = get_idx_split shuffle g self0;
          train_indices = train s
      in case normalize_md17_energy (md17_dataset self1) train_indices of
           Inl e \<Rightarrow> Inl e
         | Inr m \<Rightarrow> Inr (self1\<lparr>mean_energy := Some m, splits := Some s\<rparr>, g'))"

text \<open>
  The tail of \<^verbatim>\<open>get\<close>, from \<^verbatim>\<open>md17_data = self.md17_dataset[idx]\<close> to
  \<^verbatim>\<open>return encapsulated_data\<close>: fetch, transform, centre the energy, build the record.
  \<^verbatim>\<open>
      md17_data = self.md17_dataset[idx]
      md17_data = self.compute_edge_indices_norm(md17_data)
      normalized_energy = md17_data.energy - self.mean_energy
      encapsulated_data = Data(
          x=md17_data.z.unsqueeze(1), pos=md17_data.pos,
          edge_index=md17_data.edge_index, edge_attr=md17_data.edge_attr,
          edge_weight=md17_data.edge_attr.view(-1),
          y=normalized_energy.squeeze(), z=md17_data.z)
      return encapsulated_data
  \<close>
  Nothing here, and nothing elsewhere in \<^verbatim>\<open>get\<close>, assigns \<^verbatim>\<open>self._data_list[idx]\<close>.
\<close>

definition compute_edge_indices_norm ::
  "(md17_data \<Rightarrow> (nat \<times> nat) list \<times> real list list) \<Rightarrow> md17_data \<Rightarrow> md17_data" where
  "compute_edge_indices_norm edges item =
     item\<lparr>md_edge_index := fst (edges item), md_edge_attr := snd (edges item)\<rparr>"

definition materialize ::
  "(md17_data \<Rightarrow> (nat \<times> nat) list \<times> real list list) \<Rightarrow> nat \<Rightarrow> wrapped_md17
     \<Rightarrow> exit + data \<times> wrapped_md17" where
  "materialize edges idx self =
     (if length (md17_dataset self) \<le> idx then Inl IndexError
      else
        let md17_data = compute_edge_indices_norm edges (md17_dataset self ! idx);
            self' = self\<lparr>chain_log := chain_log self @ [idx]\<rparr>
        in case mean_energy self of
             None \<Rightarrow> Inl AttributeError
           | Some m \<Rightarrow>
               Inr (\<lparr>d_x = map (\<lambda>a. [a]) (md_z md17_data),
                     d_pos = md_pos md17_data,
                     d_edge_index = md_edge_index md17_data,
                     d_edge_attr = md_edge_attr md17_data,
                     d_edge_weight = concat (md_edge_attr md17_data),
                     d_y = md_energy md17_data - m,
                     d_z = md_z md17_data\<rparr>, self'))"

text \<open>
  \<^verbatim>\<open>
  def get(self, idx):
      if self._data:
          return super().get(idx)
      if not hasattr(self, '_data_list') or self._data_list is None:
          self._data_list = self.len() * [None]
      elif self._data_list[idx] is not None:
          return copy.copy(self._data_list[idx])
      ...
  \<close>
  \<open>idx\<close> is a natural number: \<^verbatim>\<open>__getitem__\<close> resolves an index through \<^verbatim>\<open>indices()\<close>
  before it calls \<^verbatim>\<open>get\<close>. When the list has just been allocated the \<^verbatim>\<open>elif\<close> is skipped,
  so the slot is not read on that call.
\<close>

definition get ::
  "(md17_data \<Rightarrow> (nat \<times> nat) list \<times> real list list) \<Rightarrow> nat \<Rightarrow> wrapped_md17
     \<Rightarrow> exit + data \<times> wrapped_md17" where
  "get edges idx self =
     (if has_data self then Inl SuperGet
      else
        case data_list self of
          None \<Rightarrow> materialize edges idx (self\<lparr>data_list := Some (replicate (len self) None)\<rparr>)
        | Some slots \<Rightarrow>
            if length slots \<le> idx then Inl IndexError
            else (case slots ! idx of
                    Some d \<Rightarrow> Inr (d, self)
                  | None \<Rightarrow> materialize edges idx self))"

text \<open>No slot of the cache holds a record.\<close>

definition cache_unpopulated :: "wrapped_md17 \<Rightarrow> bool" where
  "cache_unpopulated self =
     (case data_list self of None \<Rightarrow> True | Some slots \<Rightarrow> list_all (\<lambda>slot. slot = None) slots)"

text \<open>A sequence of \<^verbatim>\<open>get\<close> calls on one object, with the records they return.\<close>

fun run_gets ::
  "(md17_data \<Rightarrow> (nat \<times> nat) list \<times> real list list) \<Rightarrow> nat list \<Rightarrow> wrapped_md17
     \<Rightarrow> exit + data list \<times> wrapped_md17" where
  "run_gets edges [] self = Inr ([], self)"
| "run_gets edges (idx # rest) self =
     (case get edges idx self of
        Inl e \<Rightarrow> Inl e
      | Inr (d, self1) \<Rightarrow>
          (case run_gets edges rest self1 of
             Inl e \<Rightarrow> Inl e
           | Inr (ds, self2) \<Rightarrow> Inr (d # ds, self2)))"

text \<open>A stand-in for the library's generator, used where a statement is evaluated on a
  concrete input: the state is a counter, and the shuffle rotates the list by it.\<close>

definition rotate_shuffle :: "nat \<Rightarrow> nat list \<Rightarrow> nat list \<times> nat" where
  "rotate_shuffle g xs = (rotate g xs, Suc g)"



section \<open>logger.py: numeric values\<close>

text \<open>
  A NumPy float is a finite value, an infinity or NaN. The metric functions take finite
  values (\<open>real\<close>) and can return the other three through \<^verbatim>\<open>np.divide\<close>, which does not
  raise on a zero divisor: it yields NaN for 0/0 and a signed infinity otherwise. The sign
  of a zero divisor is not modelled.
\<close>

datatype npfloat = Fin real | PosInf | NegInf | NaN

definition np_divide :: "real \<Rightarrow> real \<Rightarrow> npfloat" where
  "np_divide a b =
     (if b \<noteq> 0 then Fin (a / b)
      else if a = 0 then NaN
      else if 0 < a then PosInf else NegInf)"

text \<open>\<^verbatim>\<open>c - v\<close> for a finite \<open>c\<close>.\<close>

fun np_rsub :: "real \<Rightarrow> npfloat \<Rightarrow> npfloat" where
  "np_rsub c (Fin v) = Fin (c - v)"
| "np_rsub c PosInf = NegInf"
| "np_rsub c NegInf = PosInf"
| "np_rsub c NaN = NaN"

fun np_add :: "npfloat \<Rightarrow> npfloat \<Rightarrow> npfloat" where
  "np_add (Fin a) (Fin b) = Fin (a + b)"
| "np_add NaN v = NaN"
| "np_add v NaN = NaN"
| "np_add PosInf NegInf = NaN"
| "np_add NegInf PosInf = NaN"
| "np_add PosInf v = PosInf"
| "np_add v PosInf = PosInf"
| "np_add NegInf v = NegInf"
| "np_add v NegInf = NegInf"

text \<open>\<^verbatim>\<open>v / n\<close> for a positive integer \<open>n\<close>.\<close>

fun np_div_count :: "npfloat \<Rightarrow> nat \<Rightarrow> npfloat" where
  "np_div_count (Fin a) n = Fin (a / real n)"
| "np_div_count v n = v"

text \<open>\<^verbatim>\<open>a.min()\<close> raises ValueError on an empty array.\<close>

definition np_min :: "real list \<Rightarrow> exit + real" where
  "np_min a = (if a = [] then Inl ValueError else Inr (Min (set a)))"

text \<open>\<^verbatim>\<open>a[idx]\<close> with an index array: IndexError when an index is past the end.\<close>

definition np_take :: "'a list \<Rightarrow> nat list \<Rightarrow> exit + 'a list" where
  "np_take a idx =
     (if list_all (\<lambda>i. i < length a) idx then Inr (map (\<lambda>i. a ! i) idx) else Inl IndexError)"

text \<open>\<^verbatim>\<open>xs[:k]\<close>: a negative bound counts from the end.\<close>

definition py_slice_to :: "'a list \<Rightarrow> int \<Rightarrow> 'a list" where
  "py_slice_to xs k = (if k < 0 then take (nat (int (length xs) + k)) xs else take (nat k) xs)"

text \<open>
  \<^verbatim>\<open>np.argpartition(a, kth)\<close> raises ValueError when \<open>kth\<close> is out of bounds and otherwise
  returns an index array in which position \<open>kth\<close> holds the index of the element of rank
  \<open>kth\<close>, the indices of no larger elements stand before it and those of no smaller
  elements after it, in an order the library does not specify. The library's choice is
  the parameter \<open>ap\<close>; \<open>partitioned_at\<close> says that an index list is an admissible result.
\<close>

definition np_argpartition ::
  "(real list \<Rightarrow> nat \<Rightarrow> nat list) \<Rightarrow> real list \<Rightarrow> int \<Rightarrow> exit + nat list" where
  "np_argpartition ap a kth =
     (let n = int (length a)
      in if kth < - n \<or> n \<le> kth then Inl ValueError
         else Inr (ap a (nat (if kth < 0 then kth + n else kth))))"

definition partitioned_at :: "real list \<Rightarrow> nat \<Rightarrow> nat list \<Rightarrow> bool" where
  "partitioned_at a k r \<longleftrightarrow>
     length r = length a \<and> distinct r \<and> list_all (\<lambda>i. i < length a) r \<and>
     list_all (\<lambda>p. a ! (r ! p) \<le> a ! (r ! k)) [0..<k] \<and>
     list_all (\<lambda>q. a ! (r ! k) \<le> a ! (r ! q)) [k..<length a]"

text \<open>An admissible choice, for evaluating on concrete inputs: the indices fully sorted
  by their values.\<close>

definition argsort :: "real list \<Rightarrow> nat \<Rightarrow> nat list" where
  "argsort a k = sort_key (\<lambda>i. a ! i) [0..<length a]"


section \<open>logger.py: ranking metrics\<close>




text \<open>
  \<^verbatim>\<open>
  def eval_one_minus_slowdown(y_true, y_pred, k=5):
      k = min(y_pred.shape[0] - 1, k)
      pred_runtime = y_true[np.argpartition(y_pred, k)[:k]]
      return 2 - np.divide(pred_runtime.min(), y_true.min())
  \<close>
\<close>

definition eval_one_minus_slowdown ::
  "(real list \<Rightarrow> nat \<Rightarrow> nat list) \<Rightarrow> real list \<Rightarrow> real list \<Rightarrow> nat \<Rightarrow> exit + npfloat" where
  "eval_one_minus_slowdown ap y_true y_pred k0 =
     (let k = min (int (length y_pred) - 1) (int k0)
      in case np_argpartition ap y_pred k of Inl e \<Rightarrow> Inl e | Inr part \<Rightarrow>
        (case np_take y_true (py_slice_to part k) of Inl e \<Rightarrow> Inl e | Inr pred_runtime \<Rightarrow>
        (case np_min pred_runtime of Inl e \<Rightarrow> Inl e | Inr pred_min \<Rightarrow>
        (case np_min y_true of Inl e \<Rightarrow> Inl e | Inr true_min \<Rightarrow>
           Inr (np_rsub 2 (np_divide pred_min true_min))))))"

text \<open>
  \<^verbatim>\<open>
  def eval_err_top_k(y_true, y_pred, k=5):
      if y_true.shape[0] <= k:
          pred_runtime = y_true.min()
      else:
          pred_runtime = y_true[np.argpartition(y_pred, k)[:k]].min()
      best_runtime = y_true.min()
      return np.divide(pred_runtime - best_runtime, best_runtime)
  \<close>
\<close>

definition top_k_runtime ::
  "(real list \<Rightarrow> nat \<Rightarrow> nat list) \<Rightarrow> real list \<Rightarrow> real list \<Rightarrow> nat \<Rightarrow> exit + real" where
  "top_k_runtime ap y_true y_pred k =
     (case np_argpartition ap y_pred (int k) of Inl e \<Rightarrow> Inl e | Inr part \<Rightarrow>
       (case np_take y_true (py_slice_to part (int k)) of Inl e \<Rightarrow> Inl e | Inr chosen \<Rightarrow>
          np_min chosen))"

definition eval_err_top_k ::
  "(real list \<Rightarrow> nat \<Rightarrow> nat list) \<Rightarrow> real list \<Rightarrow> real list \<Rightarrow> nat \<Rightarrow> exit + npfloat" where
  "eval_err_top_k ap y_true y_pred k =
     (case (if length y_true \<le> k then np_min y_true else top_k_runtime ap y_true y_pred k) of
        Inl e \<Rightarrow> Inl e
      | Inr pred_runtime \<Rightarrow>
          (case np_min y_true of
             Inl e \<Rightarrow> Inl e
           | Inr best_runtime \<Rightarrow> Inr (np_divide (pred_runtime - best_runtime) best_runtime)))"


section \<open>logger.py: eval\_spearmanr\<close>

text \<open>
  A NumPy array of one or two dimensions; a matrix carries its column count
  (\<^verbatim>\<open>shape[1]\<close>) and its rows. Entries are \<open>npfloat\<close>: an undefined label is NaN.
\<close>

datatype ndarray = Vec "npfloat list" | Mat nat "npfloat list list"

text \<open>\<^verbatim>\<open>a[mask, i]\<close>: the entries of column \<open>i\<close> in the rows where the mask holds.\<close>

definition masked_column :: "bool list \<Rightarrow> nat \<Rightarrow> npfloat list list \<Rightarrow> npfloat list" where
  "masked_column keep i rows = map (\<lambda>row. row ! i) (map snd (filter fst (zip keep rows)))"

text \<open>
  \<^verbatim>\<open>
  def eval_spearmanr(y_true, y_pred):
      res_list = []
      if y_true.ndim == 1:
          res_list.append(stats.spearmanr(y_true, y_pred)[0])
      else:
          for i in range(y_true.shape[1]):
              # ignore nan values
              is_labeled = ~np.isnan(y_true[:, i])
              res_list.append(stats.spearmanr(y_true[is_labeled, i],
                                              y_pred[is_labeled, i])[0])
      return {'spearmanr': sum(res_list) / len(res_list)}
  \<close>
  \<open>spearmanr_args\<close> is the list of argument pairs handed to \<^verbatim>\<open>stats.spearmanr\<close>, in call
  order; the library function is the parameter \<open>sp\<close>. Indexing \<^verbatim>\<open>y_pred\<close> with the row mask
  and a column raises IndexError when \<^verbatim>\<open>y_pred\<close> has another number of rows, too few
  columns, or one dimension.
\<close>

fun spearmanr_args :: "ndarray \<Rightarrow> ndarray \<Rightarrow> exit + (ndarray \<times> ndarray) list" where
  "spearmanr_args (Vec t) y_pred = Inr [(Vec t, y_pred)]"
| "spearmanr_args (Mat ncols rows) (Vec p) = (if ncols = 0 then Inr [] else Inl IndexError)"
| "spearmanr_args (Mat ncols rows) (Mat pcols prows) =
     (if 0 < ncols \<and> (length prows \<noteq> length rows \<or> pcols < ncols) then Inl IndexError
      else Inr (map (\<lambda>i. let is_labeled = map (\<lambda>row. row ! i \<noteq> NaN) rows
                         in (Vec (masked_column is_labeled i rows),
                             Vec (masked_column is_labeled i prows)))
                  [0..<ncols]))"

definition eval_spearmanr ::
  "(ndarray \<Rightarrow> ndarray \<Rightarrow> npfloat) \<Rightarrow> ndarray \<Rightarrow> ndarray \<Rightarrow> exit + npfloat" where
  "eval_spearmanr sp y_true y_pred =
     (case spearmanr_args y_true y_pred of
        Inl e \<Rightarrow> Inl e
      | Inr args \<Rightarrow>
          let res_list = map (\<lambda>(t, p). sp t p) args
          in if length res_list = 0 then Inl ZeroDivisionError
             else Inr (np_div_count (foldl np_add (Fin 0) res_list) (length res_list)))"


section \<open>logger.py: CustomLogger\<close>

text \<open>
  The accumulator attributes of a logger, named after the source's \<^verbatim>\<open>_iter\<close>, \<^verbatim>\<open>_true\<close>,
  \<^verbatim>\<open>_pred\<close>, \<^verbatim>\<open>_data\<close>, \<^verbatim>\<open>_size_current\<close>, \<^verbatim>\<open>_loss\<close>, \<^verbatim>\<open>_lr\<close>, \<^verbatim>\<open>_params\<close>, \<^verbatim>\<open>_time_used\<close>,
  \<^verbatim>\<open>_time_total\<close> and \<^verbatim>\<open>_custom_stats\<close>. A batch tensor is the list of its rows, so
  \<^verbatim>\<open>shape[0]\<close> is the length of the list.
\<close>

record ('p, 't, 'd) logger =
  lg_iter :: nat
  lg_true :: "'t list list"
  lg_pred :: "'p list list"
  lg_data :: "('d \<times> 'p list) list"
  lg_size_current :: nat
  lg_loss :: real
  lg_lr :: real
  lg_params :: nat
  lg_time_used :: real
  lg_time_total :: real
  lg_custom_stats :: "string \<rightharpoonup> real"

text \<open>\<^verbatim>\<open>reset\<close>: the library's \<^verbatim>\<open>Logger.reset\<close> zeroes the accumulators of the epoch (the
  total time is kept), and \<^verbatim>\<open>CustomLogger.reset\<close> empties \<^verbatim>\<open>_data\<close>.\<close>

definition reset :: "('p, 't, 'd) logger \<Rightarrow> ('p, 't, 'd) logger" where
  "reset lg = lg\<lparr>lg_iter := 0, lg_true := [], lg_pred := [], lg_data := [],
                 lg_size_current := 0, lg_loss := 0, lg_lr := 0, lg_params := 0,
                 lg_time_used := 0, lg_custom_stats := Map.empty\<rparr>"

text \<open>The loop over \<^verbatim>\<open>kwargs\<close> at the end of \<^verbatim>\<open>update_stats\<close>.\<close>

fun add_custom_stats :: "nat \<Rightarrow> (string \<times> real) list \<Rightarrow> (string \<rightharpoonup> real) \<Rightarrow> (string \<rightharpoonup> real)" where
  "add_custom_stats batch_size [] m = m"
| "add_custom_stats batch_size ((key, v) # rest) m =
     add_custom_stats batch_size rest
       (case m key of
          None \<Rightarrow> m(key \<mapsto> v * real batch_size)
        | Some old \<Rightarrow> m(key \<mapsto> old + v * real batch_size))"

text \<open>
  \<^verbatim>\<open>update_stats\<close> for every dataset but \<^verbatim>\<open>'ogbg-code2'\<close> (that branch decodes token
  sequences with helpers of another module and then accumulates in the same way):
  \<^verbatim>\<open>
      assert true.shape[0] == pred.shape[0]
      batch_size = true.shape[0]
      self._iter += 1
      self._true.append(true)
      self._pred.append(pred)
      if data is not None:
          data.update({'pred': pred})
          self._data.append(data)
      self._size_current += batch_size
      self._loss += loss * batch_size
      self._lr = lr
      self._params = params
      self._time_used += time_used
      self._time_total += time_used
      for key, val in kwargs.items(): ...
  \<close>
\<close>

definition update_stats ::
  "'p list \<Rightarrow> 't list \<Rightarrow> real \<Rightarrow> real \<Rightarrow> real \<Rightarrow> nat \<Rightarrow> 'd option \<Rightarrow> (string \<times> real) list
     \<Rightarrow> ('p, 't, 'd) logger \<Rightarrow> exit + ('p, 't, 'd) logger" where
  "update_stats pred true loss lr time_used params data_arg kwargs lg =
     (if length true \<noteq> length pred then Inl AssertionError
      else
        let batch_size = length true
        in Inr (lg\<lparr>lg_iter := lg_iter lg + 1,
                   lg_true := lg_true lg @ [true],
                   lg_pred := lg_pred lg @ [pred],
                   lg_data := (case data_arg of None \<Rightarrow> lg_data lg
                                | Some d \<Rightarrow> lg_data lg @ [(d, pred)]),
                   lg_size_current := lg_size_current lg + batch_size,
                   lg_loss := lg_loss lg + loss * real batch_size,
                   lg_lr := lr,
                   lg_params := params,
                   lg_time_used := lg_time_used lg + time_used,
                   lg_time_total := lg_time_total lg + time_used,
                   lg_custom_stats := add_custom_stats batch_size kwargs (lg_custom_stats lg)\<rparr>))"

text \<open>
  Python's \<^verbatim>\<open>round(v, ndigits)\<close> on exact values: to the nearest multiple of
  \<open>10^-ndigits\<close>, a tie going to the even multiple.
\<close>

definition round_half_even :: "real \<Rightarrow> int" where
  "round_half_even v =
     (let f = \<lfloor>v\<rfloor>; d = v - of_int f
      in if d < 1 / 2 then f else if 1 / 2 < d then f + 1 else if even f then f else f + 1)"

definition py_round :: "real \<Rightarrow> nat \<Rightarrow> real" where
  "py_round v ndigits = of_int (round_half_even (v * 10 ^ ndigits)) / 10 ^ ndigits"

text \<open>
  The \<^verbatim>\<open>'loss'\<close> entry of \<^verbatim>\<open>basic\<close>:
  \<^verbatim>\<open>'loss': round(self._loss / self._size_current, max(8, cfg.round))\<close>.
  \<open>cfg_round\<close> is the configuration value \<^verbatim>\<open>cfg.round\<close>; dividing by an empty accumulator's
  size raises ZeroDivisionError.
\<close>

definition basic_loss :: "int \<Rightarrow> ('p, 't, 'd) logger \<Rightarrow> exit + real" where
  "basic_loss cfg_round lg =
     (if lg_size_current lg = 0 then Inl ZeroDivisionError
      else Inr (py_round (lg_loss lg / real (lg_size_current lg)) (nat (max 8 cfg_round))))"

text \<open>A logger as \<^verbatim>\<open>Logger.__init__\<close> leaves it: every accumulator zero or empty.\<close>

definition new_logger :: "('p, 't, 'd) logger" where
  "new_logger = \<lparr>lg_iter = 0, lg_true = [], lg_pred = [], lg_data = [], lg_size_current = 0,
                  lg_loss = 0, lg_lr = 0, lg_params = 0, lg_time_used = 0, lg_time_total = 0,
                  lg_custom_stats = Map.empty\<rparr>"

text \<open>One evaluation pass: \<^verbatim>\<open>update_stats\<close> once per batch, in order. A batch is
  \<open>(pred, true, loss)\<close>; learning rate, time, parameter count, \<^verbatim>\<open>data\<close> and \<^verbatim>\<open>kwargs\<close> do
  not enter the loss and are fixed here.\<close>

fun add_batches ::
  "('p list \<times> 't list \<times> real) list \<Rightarrow> ('p, 't, 'd) logger \<Rightarrow> exit + ('p, 't, 'd) logger" where
  "add_batches [] lg = Inr lg"
| "add_batches ((pred, true, loss) # rest) lg =
     (case update_stats pred true loss 0 0 0 None [] lg of
        Inl e \<Rightarrow> Inl e
      | Inr lg' \<Rightarrow> add_batches rest lg')"


text \<open>The loss a pass reports: reset, one \<^verbatim>\<open>update_stats\<close> per batch, then \<^verbatim>\<open>basic\<close>.\<close>

definition epoch_loss ::
  "int \<Rightarrow> ('p, 't, 'd) logger \<Rightarrow> ('p list \<times> 't list \<times> real) list \<Rightarrow> exit + real" where
  "epoch_loss cfg_round lg batches =
     (case add_batches batches (reset lg) of
        Inl e \<Rightarrow> Inl e
      | Inr lg' \<Rightarrow> basic_loss cfg_round lg')"


section \<open>Properties of join\_dataset\_splits\<close>

lemma collect_Inr: "collect (map Inr xs) = Inr xs"
  by (induction xs) simp_all

lemma get_ds_all: "map (get_ds ds) [0..<length (stored ds)] = map Inr (stored ds)"
  by (rule nth_equalityI) (auto simp: get_ds_def)

text \<open>
  C5, as the code has it. Joining three datasets of sizes n1, n2, n3, none of them a
  subset view and not all of them empty, succeeds; the joined dataset holds the items of
  the first, then the second, then the third, has length n1 + n2 + n3, and its
  \<open>split_idxs\<close> are the consecutive ranges [0..n1), [n1..n1+n2), [n1+n2..n1+n2+n3).
  Nothing random enters the computation.
\<close>

theorem join_dataset_splits_ranges:
  assumes "ds_indices a = None" and "ds_indices b = None" and "ds_indices c = None"
    and "stored a @ stored b @ stored c \<noteq> []"
  shows "let n1 = length (stored a); n2 = length (stored b); n3 = length (stored c);
             r = a\<lparr>ds_indices := None,
                   ds_data_list := None,
                   stored := stored a @ stored b @ stored c,
                   split_idxs := Some [[0..<n1], [n1..<n1 + n2], [n1 + n2..<n1 + n2 + n3]]\<rparr>
         in join_dataset_splits [a, b, c] = Inr r \<and>
            len_ds a = n1 \<and> len_ds b = n2 \<and> len_ds c = n3 \<and>
            ds_items a = Inr (stored a) \<and> ds_items b = Inr (stored b) \<and>
            ds_items c = Inr (stored c) \<and>
            len_ds r = n1 + n2 + n3 \<and>
            ds_items r = Inr (stored a @ stored b @ stored c)"
proof -
  have n: "len_ds a = length (stored a)" "len_ds b = length (stored b)"
    "len_ds c = length (stored c)"
    using assms by (simp_all add: len_ds_def indices_def)
  have all: "ds_items r = Inr (stored r)" if "ds_indices r = None" for r :: "'a pyg_dataset"
    using that by (simp add: ds_items_def indices_def get_ds_all collect_Inr)
  have "collect (map (get_ds a) [0..<len_ds a] @ map (get_ds b) [0..<len_ds b]
           @ map (get_ds c) [0..<len_ds c]) = Inr (stored a @ stored b @ stored c)"
    unfolding n get_ds_all by (simp add: collect_Inr flip: map_append)
  then have eq: "join_dataset_splits [a, b, c] =
           Inr (a\<lparr>ds_indices := None,
                   ds_data_list := None,
                   stored := stored a @ stored b @ stored c,
                   split_idxs := Some [[0..<length (stored a)],
                      [length (stored a)..<length (stored a) + length (stored b)],
                      [length (stored a) + length (stored b)..<
                         length (stored a) + length (stored b) + length (stored c)]]\<rparr>)"
    using assms(4) by (simp add: join_dataset_splits_def Let_def n collate_def)
  show ?thesis
    unfolding Let_def
    by (intro conjI eq n all assms) (simp_all add: all len_ds_def indices_def)
qed

text \<open>The sizes (3, 2, 4): length 9 and \<open>split_idxs = [[0,1,2], [3,4], [5,6,7,8]]\<close>.\<close>

theorem join_dataset_splits_ranges_witness:
  "join_dataset_splits
     [\<lparr>stored = [10, 11, 12 :: nat], ds_indices = None, ds_data_list = None, split_idxs = None\<rparr>,
      \<lparr>stored = [20, 21], ds_indices = None, ds_data_list = None, split_idxs = None\<rparr>,
      \<lparr>stored = [30, 31, 32, 33], ds_indices = None, ds_data_list = None, split_idxs = None\<rparr>]
   = Inr \<lparr>stored = [10, 11, 12, 20, 21, 30, 31, 32, 33], ds_indices = None,
           ds_data_list = None,
           split_idxs = Some [[0, 1, 2], [3, 4], [5, 6, 7, 8]]\<rparr>"
  using join_dataset_splits_ranges
    [of "\<lparr>stored = [10, 11, 12 :: nat], ds_indices = None, ds_data_list = None, split_idxs = None\<rparr>"
        "\<lparr>stored = [20, 21], ds_indices = None, ds_data_list = None, split_idxs = None\<rparr>"
        "\<lparr>stored = [30, 31, 32, 33], ds_indices = None, ds_data_list = None, split_idxs = None\<rparr>"]
  by (simp add: Let_def upt_rec)

text \<open>
  C5 as stated fails on two kinds of input. The view \<^verbatim>\<open>ds[[2, 0]]\<close> of a three-item
  dataset has the items 12, 10, but the join reads storage positions 0 and 1 and puts
  10, 11 first. And three empty datasets make \<^verbatim>\<open>collate\<close> raise.
\<close>

theorem join_dataset_splits_counterexample:
  "ds_items \<lparr>stored = [10, 11, 12 :: nat], ds_indices = Some [2, 0], ds_data_list = None,
              split_idxs = None\<rparr> = Inr [12, 10]
   \<and> join_dataset_splits
       [\<lparr>stored = [10, 11, 12 :: nat], ds_indices = Some [2, 0], ds_data_list = None,
          split_idxs = None\<rparr>,
        \<lparr>stored = [20, 21], ds_indices = None, ds_data_list = None, split_idxs = None\<rparr>,
        \<lparr>stored = [30, 31], ds_indices = None, ds_data_list = None, split_idxs = None\<rparr>]
     = Inr \<lparr>stored = [10, 11, 20, 21, 30, 31], ds_indices = None, ds_data_list = None,
             split_idxs = Some [[0, 1], [2, 3], [4, 5]]\<rparr>
   \<and> join_dataset_splits
       [\<lparr>stored = ([] :: nat list), ds_indices = None, ds_data_list = None, split_idxs = None\<rparr>,
        \<lparr>stored = [], ds_indices = None, ds_data_list = None, split_idxs = None\<rparr>,
        \<lparr>stored = [], ds_indices = None, ds_data_list = None, split_idxs = None\<rparr>]
     = Inl IndexError"
  by (simp add: join_dataset_splits_def ds_items_def indices_def len_ds_def get_ds_def
      collate_def Let_def upt_rec)


section \<open>Properties of the ranking metrics\<close>

subsection \<open>The index arrays of eval\_opa\<close>














subsection \<open>Ordered-pair accuracy\<close>





subsection \<open>Single-candidate items\<close>

text \<open>
  C7 fails in the code: for every item with exactly one candidate,
  \<open>eval_one_minus_slowdown\<close> raises ValueError, whatever the values, the requested \<open>k\<close> and
  the library's partition. \<open>k\<close> becomes \<open>min(1 - 1, k) = 0\<close>, the slice \<^verbatim>\<open>[:0]\<close> is empty,
  and \<^verbatim>\<open>min()\<close> of an empty array raises.
\<close>

theorem eval_one_minus_slowdown_single_raises:
  "eval_one_minus_slowdown ap [t] [p] k = Inl ValueError"
  by (simp add: eval_one_minus_slowdown_def np_argpartition_def py_slice_to_def np_take_def
      np_min_def Let_def)

subsection \<open>Undefined labels in eval\_spearmanr\<close>

text \<open>
  C10 fails in the code on one-dimensional input: the vector of ground-truth values is
  handed to the correlation as it is, NaN entries included, while the same column given
  as a one-column matrix is filtered first.
\<close>

theorem spearmanr_vector_not_filtered:
  "spearmanr_args (Vec t) y_pred = Inr [(Vec t, y_pred)] \<and>
   eval_spearmanr sp (Vec t) y_pred
     = Inr (np_div_count (np_add (Fin 0) (sp (Vec t) y_pred)) 1) \<and>
   spearmanr_args (Vec [Fin 1, NaN, Fin 3]) (Vec [Fin 1, Fin 2, Fin 3])
     = Inr [(Vec [Fin 1, NaN, Fin 3], Vec [Fin 1, Fin 2, Fin 3])] \<and>
   spearmanr_args (Mat 1 [[Fin 1], [NaN], [Fin 3]]) (Mat 1 [[Fin 1], [Fin 2], [Fin 3]])
     = Inr [(Vec [Fin 1, Fin 3], Vec [Fin 1, Fin 3])]"
  by (simp add: eval_spearmanr_def masked_column_def)

section \<open>Properties of the logger\<close>

lemma update_stats_ok:
  "length tru = length prd \<Longrightarrow>
   \<exists>lg'. update_stats prd tru l lr_v tm pc dat kw lg = Inr lg' \<and>
     lg_size_current lg' = lg_size_current lg + length tru \<and>
     lg_loss lg' = lg_loss lg + l * real (length tru)"
  by (simp add: update_stats_def Let_def)

lemma add_batches_sums:
  "list_all (\<lambda>(prd, tru, l). length tru = length prd) batches \<Longrightarrow>
   \<exists>lg'. add_batches batches lg = Inr lg' \<and>
     lg_size_current lg' =
       lg_size_current lg + sum_list (map (\<lambda>(prd, tru, l). length tru) batches) \<and>
     lg_loss lg' =
       lg_loss lg + sum_list (map (\<lambda>(prd, tru, l). l * real (length tru)) batches)"
proof (induction batches arbitrary: lg)
  case Nil
  then show ?case by simp
next
  case (Cons b rest)
  obtain prd tru l where b: "b = (prd, tru, l)" by (cases b)
  from Cons.prems b have sh: "length tru = length prd"
    and rest: "list_all (\<lambda>(prd, tru, l). length tru = length prd) rest" by simp_all
  from update_stats_ok[OF sh, of l 0 0 0 None "[]" lg]
  obtain lg1 where u: "update_stats prd tru l 0 0 0 None [] lg = Inr lg1"
    and s1: "lg_size_current lg1 = lg_size_current lg + length tru"
    and l1: "lg_loss lg1 = lg_loss lg + l * real (length tru)" by blast
  from Cons.IH[OF rest, of lg1]
  obtain lg2 where r: "add_batches rest lg1 = Inr lg2"
    and s2: "lg_size_current lg2 =
       lg_size_current lg1 + sum_list (map (\<lambda>(prd, tru, l). length tru) rest)"
    and l2: "lg_loss lg2 =
       lg_loss lg1 + sum_list (map (\<lambda>(prd, tru, l). l * real (length tru)) rest)" by blast
  have "add_batches (b # rest) lg = Inr lg2" by (simp add: b u r)
  moreover have "lg_size_current lg2 =
       lg_size_current lg + sum_list (map (\<lambda>(prd, tru, l). length tru) (b # rest))"
    by (simp add: b s1 s2)
  moreover have "lg_loss lg2 =
       lg_loss lg + sum_list (map (\<lambda>(prd, tru, l). l * real (length tru)) (b # rest))"
    by (simp add: b l1 l2)
  ultimately show ?case by blast
qed

text \<open>
  C9, as the code has it. After a reset and batches of sizes \<open>b_i\<close> with losses \<open>l_i\<close> whose
  predictions and ground truth agree in their first dimension, with at least one item in
  all, the reported loss is \<open>sum (l_i * b_i) / sum b_i\<close> rounded to \<open>max(8, cfg.round)\<close>
  decimal places: weighted by item count, not averaged over batches.
\<close>

theorem epoch_loss_weighted:
  assumes "list_all (\<lambda>(prd, tru, l). length tru = length prd) batches"
    and "0 < sum_list (map (\<lambda>(prd, tru, l). length tru) batches)"
  shows "epoch_loss cfg_round lg batches =
    Inr (py_round
          (sum_list (map (\<lambda>(prd, tru, l). l * real (length tru)) batches)
             / real (sum_list (map (\<lambda>(prd, tru, l). length tru) batches)))
          (nat (max 8 cfg_round)))"
proof -
  from add_batches_sums[OF assms(1), of "reset lg"]
  obtain lg' where a: "add_batches batches (reset lg) = Inr lg'"
    and s: "lg_size_current lg' =
       lg_size_current (reset lg) + sum_list (map (\<lambda>(prd, tru, l). length tru) batches)"
    and l: "lg_loss lg' =
       lg_loss (reset lg) + sum_list (map (\<lambda>(prd, tru, l). l * real (length tru)) batches)"
    by blast
  have z: "lg_size_current (reset lg) = 0" "lg_loss (reset lg) = 0"
    by (simp_all add: reset_def)
  have nz: "lg_size_current lg' \<noteq> 0"
    using assms(2) s z by linarith
  have "epoch_loss cfg_round lg batches =
      Inr (py_round (lg_loss lg' / real (lg_size_current lg')) (nat (max 8 cfg_round)))"
    using nz by (simp add: epoch_loss_def a basic_loss_def)
  then show ?thesis
    by (simp only: s l z add_0)
qed

text \<open>Batch sizes (4, 6) with losses (1.0, 2.0) report 1.6.\<close>

lemma py_round_example: "py_round (8 / 5) 8 = 8 / 5"
  by code_simp

theorem epoch_loss_weighted_witness:
  "epoch_loss 4 (new_logger :: (unit, unit, unit) logger)
     [(replicate 4 (), replicate 4 (), 1), (replicate 6 (), replicate 6 (), 2)] = Inr (16 / 10)"
  using epoch_loss_weighted
    [of "[(replicate 4 (), replicate 4 (), 1), (replicate 6 (), replicate 6 (), 2)]" 4
        "new_logger :: (unit, unit, unit) logger"]
  by (simp add: py_round_example)

text \<open>
  The reported loss is not the quotient itself: sizes (1, 2) with losses (1.0, 0.0) have
  the quotient 1/3 and report 0.33333333. With no batch at all the division raises.
\<close>

theorem epoch_loss_rounded_counterexample:
  "epoch_loss 4 (new_logger :: (unit, unit, unit) logger)
     [([()], [()], 1), ([(), ()], [(), ()], 0)] = Inr (33333333 / 100000000) \<and>
   epoch_loss 4 (new_logger :: (unit, unit, unit) logger)
     [([()], [()], 1), ([(), ()], [(), ()], 0)] \<noteq> Inr ((1 * 1 + 2 * 0) / (1 + 2)) \<and>
   epoch_loss 4 (new_logger :: (unit, unit, unit) logger) [] = Inl ZeroDivisionError"
  by code_simp

section \<open>Properties of the top-k regret\<close>

lemma np_min_nonempty: "a \<noteq> [] \<Longrightarrow> np_min a = Inr (Min (set a))"
  by (simp add: np_min_def)

lemma partitioned_at_set:
  assumes "partitioned_at a k r"
  shows "set r = {..<length a}"
proof -
  from assms have len: "length r = length a" and d: "distinct r"
    and b: "list_all (\<lambda>i. i < length a) r"
    by (simp_all add: partitioned_at_def)
  from b have sub: "set r \<subseteq> {..<length a}" by (auto simp: list_all_iff)
  have "card (set r) = length a" using d len by (simp add: distinct_card)
  then have "card (set r) = card {..<length a}" by simp
  with sub show ?thesis by (simp add: card_subset_eq)
qed

lemma partitioned_at_smallest:
  assumes part: "partitioned_at a k r" and k: "k < length a"
    and i: "i \<in> set (take k r)" and j: "j < length a" "j \<notin> set (take k r)"
  shows "a ! i \<le> a ! j"
proof -
  from part have len: "length r = length a" by (simp add: partitioned_at_def)
  from part have lo: "\<And>p. p < k \<Longrightarrow> a ! (r ! p) \<le> a ! (r ! k)"
    by (simp add: partitioned_at_def list_all_iff)
  from part have hi: "\<And>q. k \<le> q \<Longrightarrow> q < length a \<Longrightarrow> a ! (r ! k) \<le> a ! (r ! q)"
    by (simp add: partitioned_at_def list_all_iff)
  from i obtain p where p: "p < k" "i = r ! p"
    using k len by (auto simp: in_set_conv_nth)
  from j(1) have "j \<in> set r" using partitioned_at_set[OF part] by simp
  then obtain q where q: "q < length r" "j = r ! q" by (auto simp: in_set_conv_nth)
  have "k \<le> q"
  proof (rule ccontr)
    assume "\<not> k \<le> q"
    then have "q < k" by simp
    then have "r ! q \<in> set (take k r)"
      using q(1) by (auto simp: in_set_conv_nth intro!: exI[where x = q])
    with j(2) q(2) show False by simp
  qed
  from lo[OF p(1)] hi[OF this] q len p show ?thesis by simp
qed

lemma top_k_runtime_eq:
  assumes part: "partitioned_at y_pred k (ap y_pred k)"
    and len: "length y_true = length y_pred" and k: "0 < k" "k < length y_true"
  shows "top_k_runtime ap y_true y_pred k
    = Inr (Min (set (map (\<lambda>i. y_true ! i) (take k (ap y_pred k)))))"
proof -
  let ?r = "ap y_pred k"
  from part have lr: "length ?r = length y_pred"
    and b: "list_all (\<lambda>i. i < length y_pred) ?r"
    by (simp_all add: partitioned_at_def)
  have ap: "np_argpartition ap y_pred (int k) = Inr ?r"
    using k len by (simp add: np_argpartition_def Let_def)
  have sl: "py_slice_to ?r (int k) = take k ?r"
    by (simp add: py_slice_to_def)
  have "list_all (\<lambda>i. i < length y_true) (take k ?r)"
    using b len by (auto simp: list_all_iff dest: in_set_takeD)
  then have tk: "np_take y_true (take k ?r) = Inr (map (\<lambda>i. y_true ! i) (take k ?r))"
    by (simp add: np_take_def)
  have ne: "map (\<lambda>i. y_true ! i) (take k ?r) \<noteq> []"
    using k lr len by auto
  show ?thesis
    unfolding top_k_runtime_def ap sl tk sum.case using ne by (rule np_min_nonempty)
qed

text \<open>
  C8, as the code has it. For vectors of equal length with more than \<open>k\<close> candidates and
  \<open>k\<close> at least 1, \<open>eval_err_top_k\<close> is the least true value among \<open>k\<close> candidates, minus the
  least true value of all, divided by the latter with \<^verbatim>\<open>np.divide\<close>; the \<open>k\<close> candidates are the
  first \<open>k\<close> entries of the library's partition: \<open>k\<close> distinct indices whose predicted values
  are no larger than that of any other index. For a non-empty item with at most \<open>k\<close>
  candidates whose least true value is not zero, the result is 0.
\<close>

theorem eval_err_top_k_regret:
  "(length y_true = length y_pred \<and> 0 < k \<and> k < length y_true \<and>
      partitioned_at y_pred k (ap y_pred k) \<longrightarrow>
      eval_err_top_k ap y_true y_pred k
        = Inr (np_divide (Min (set (map (\<lambda>i. y_true ! i) (take k (ap y_pred k))))
                            - Min (set y_true)) (Min (set y_true))) \<and>
      length (take k (ap y_pred k)) = k \<and> distinct (take k (ap y_pred k)) \<and>
      (\<forall>i \<in> set (take k (ap y_pred k)). i < length y_pred \<and>
         (\<forall>j. j < length y_pred \<and> j \<notin> set (take k (ap y_pred k))
              \<longrightarrow> y_pred ! i \<le> y_pred ! j)))
   \<and> (y_true \<noteq> [] \<and> length y_true \<le> k \<and> Min (set y_true) \<noteq> 0 \<longrightarrow>
        eval_err_top_k ap y_true y_pred k = Inr (Fin 0))"
proof (intro conjI impI)
  assume h: "length y_true = length y_pred \<and> 0 < k \<and> k < length y_true \<and>
      partitioned_at y_pred k (ap y_pred k)"
  then have len: "length y_true = length y_pred" and k: "0 < k" "k < length y_true"
    and part: "partitioned_at y_pred k (ap y_pred k)" by simp_all
  from k have ne: "y_true \<noteq> []" by auto
  from k have nle: "\<not> length y_true \<le> k" by simp
  show "eval_err_top_k ap y_true y_pred k
        = Inr (np_divide (Min (set (map (\<lambda>i. y_true ! i) (take k (ap y_pred k))))
                            - Min (set y_true)) (Min (set y_true)))"
  proof -
    have t: "top_k_runtime ap y_true y_pred k
        = Inr (Min (set (map (\<lambda>i. y_true ! i) (take k (ap y_pred k)))))"
      using part len k by (rule top_k_runtime_eq[where ap = ap])
    show ?thesis
      unfolding eval_err_top_k_def by (simp add: nle t np_min_nonempty[OF ne])
  qed
  from part have lr: "length (ap y_pred k) = length y_pred"
    and d: "distinct (ap y_pred k)"
    and b: "list_all (\<lambda>i. i < length y_pred) (ap y_pred k)"
    by (simp_all add: partitioned_at_def)
  show "length (take k (ap y_pred k)) = k" using lr len k by simp
  show "distinct (take k (ap y_pred k))" using d by (rule distinct_take)
  show "\<forall>i \<in> set (take k (ap y_pred k)). i < length y_pred \<and>
         (\<forall>j. j < length y_pred \<and> j \<notin> set (take k (ap y_pred k))
              \<longrightarrow> y_pred ! i \<le> y_pred ! j)"
  proof (intro ballI conjI allI impI)
    fix i assume i: "i \<in> set (take k (ap y_pred k))"
    then show "i < length y_pred"
      using b by (auto simp: list_all_iff dest: in_set_takeD)
    fix j assume "j < length y_pred \<and> j \<notin> set (take k (ap y_pred k))"
    then show "y_pred ! i \<le> y_pred ! j"
      using partitioned_at_smallest[OF part _ i, of j] k len by simp
  qed
next
  assume h: "y_true \<noteq> [] \<and> length y_true \<le> k \<and> Min (set y_true) \<noteq> 0"
  then show "eval_err_top_k ap y_true y_pred k = Inr (Fin 0)"
    by (simp add: eval_err_top_k_def np_min_def np_divide_def)
qed

text \<open>\<open>true = [5, 2, 9]\<close>: with \<open>pred = [1, 3, 2]\<close> the top-1 regret is (5 - 2) / 2, and
  with \<open>k = 5\<close> the regret is 0.\<close>

lemma eval_err_top_k_examples:
  "length [5, 2, 9 :: real] = length [1, 3, 2 :: real] \<and> 0 < (1::nat) \<and>
   1 < length [5, 2, 9 :: real] \<and> partitioned_at [1, 3, 2] 1 (argsort [1, 3, 2] 1) \<and>
   [5, 2, 9 :: real] \<noteq> [] \<and> length [5, 2, 9 :: real] \<le> 5 \<and> Min (set [5, 2, 9 :: real]) \<noteq> 0 \<and>
   np_divide (Min (set (map (\<lambda>i. [5, 2, 9] ! i) (take 1 (argsort [1, 3, 2] 1))))
                            - Min (set [5, 2, 9])) (Min (set [5, 2, 9])) = Fin (3 / 2)"
  by code_simp

theorem eval_err_top_k_regret_witness:
  "eval_err_top_k argsort [5, 2, 9] [1, 3, 2] 1 = Inr (Fin (3 / 2)) \<and>
   eval_err_top_k argsort [5, 2, 9] [1, 3, 2] 5 = Inr (Fin 0)"
  using eval_err_top_k_regret[of "[5, 2, 9]" "[1, 3, 2]" 1 argsort]
    eval_err_top_k_regret[of "[5, 2, 9]" "[1, 3, 2]" 5 argsort]
    eval_err_top_k_examples
  by simp

text \<open>
  Without those conditions the claim fails: a least true value of 0 gives NaN (0/0) in
  the degenerate case, an empty item and \<open>k = 0\<close> make \<^verbatim>\<open>min()\<close> raise on an empty array, and
  a prediction vector shorter than \<open>k + 1\<close> makes \<^verbatim>\<open>np.argpartition\<close> raise.
\<close>

theorem eval_err_top_k_counterexample:
  "eval_err_top_k argsort [0, 1] [1, 3] 5 = Inr NaN \<and>
   eval_err_top_k argsort [] [] 5 = Inl ValueError \<and>
   eval_err_top_k argsort [5, 2, 9] [3, 1, 2] 0 = Inl ValueError \<and>
   eval_err_top_k argsort [5, 2, 9] [1] 1 = Inl ValueError"
  by code_simp

section \<open>Properties of the index split\<close>

lemma floor_eight_tenths: "nat \<lfloor>(8 / 10) * real n\<rfloor> = (8 * n) div 10"
proof -
  have "(8 / 10) * real n = real (8 * n) / real 10" by simp
  then have "\<lfloor>(8 / 10) * real n\<rfloor> = \<lfloor>real (8 * n) / real 10\<rfloor>" by (rule arg_cong)
  also have "\<dots> = int ((8 * n) div 10)" by (rule floor_divide_of_nat_eq)
  finally show ?thesis by simp
qed

lemma floor_one_tenth: "nat \<lfloor>(1 / 10) * real n\<rfloor> = n div 10"
proof -
  have "(1 / 10) * real n = real n / real 10" by simp
  then have "\<lfloor>(1 / 10) * real n\<rfloor> = \<lfloor>real n / real 10\<rfloor>" by (rule arg_cong)
  also have "\<dots> = int (n div 10)" by (rule floor_divide_of_nat_eq)
  finally show ?thesis by simp
qed

lemma idx_split_of_eq:
  "idx_split_of xs =
     \<lparr>train = take ((8 * length xs) div 10) xs,
      val = take (length xs div 10) (drop ((8 * length xs) div 10) xs),
      test = drop ((8 * length xs) div 10 + length xs div 10) xs\<rparr>"
  by (simp only: idx_split_of_def Let_def floor_eight_tenths floor_one_tenth)

lemma three_slices: "take a xs @ take b (drop a xs) @ drop (a + b) xs = xs"
proof -
  have e: "drop (a + b) xs = drop b (drop a xs)" by (simp add: add.commute)
  have "take b (drop a xs) @ drop (a + b) xs = drop a xs"
    unfolding e by (rule append_take_drop_id)
  then have "take a xs @ take b (drop a xs) @ drop (a + b) xs = take a xs @ drop a xs"
    by (rule arg_cong)
  also have "\<dots> = xs" by (rule append_take_drop_id)
  finally show ?thesis .
qed

lemma idx_split_of_concat:
  "train (idx_split_of xs) @ val (idx_split_of xs) @ test (idx_split_of xs) = xs"
  unfolding idx_split_of_eq splitmap.simps by (rule three_slices)

lemma idx_split_of_lengths:
  "length (train (idx_split_of xs)) = (8 * length xs) div 10 \<and>
   length (val (idx_split_of xs)) = length xs div 10 \<and>
   length (test (idx_split_of xs)) = length xs - (8 * length xs) div 10 - length xs div 10"
  by (simp add: idx_split_of_eq) linarith?

lemma idx_split_of_partition:
  assumes "mset xs = mset [0..<tot]"
  shows "mset (train (idx_split_of xs) @ val (idx_split_of xs) @ test (idx_split_of xs))
           = mset [0..<tot] \<and>
         distinct (train (idx_split_of xs) @ val (idx_split_of xs) @ test (idx_split_of xs)) \<and>
         length (train (idx_split_of xs)) = nat \<lfloor>(8 / 10) * real tot\<rfloor> \<and>
         length (val (idx_split_of xs)) = nat \<lfloor>(1 / 10) * real tot\<rfloor> \<and>
         length (test (idx_split_of xs))
           = tot - length (train (idx_split_of xs)) - length (val (idx_split_of xs)) \<and>
         length (train (idx_split_of xs)) + length (val (idx_split_of xs))
           + length (test (idx_split_of xs)) = tot"
proof -
  from assms have len: "length xs = tot"
    by (metis length_upt mset_eq_length minus_nat.diff_0)
  from assms have d: "distinct xs"
    by (metis distinct_upt mset_eq_imp_distinct_iff)
  have le: "(8 * tot) div 10 + tot div 10 \<le> tot" by simp
  note L = idx_split_of_lengths[of xs, unfolded len]
  show ?thesis
    unfolding idx_split_of_concat floor_eight_tenths floor_one_tenth
    using assms d L le by simp
qed

text \<open>
  C3. For every total, the three slices of a permutation of \<open>0, ..., total - 1\<close> contain each
  index exactly once, and their sizes are \<open>floor(0.8 * total)\<close>, \<open>floor(0.1 * total)\<close> and the
  rest, which sum to the total. \<open>get_idx_split\<close>, when it computes the split of an object
  (the library's shuffle returning a permutation of its argument), returns such a split
  of \<open>0, ..., 999\<close> with sizes 800, 100 and 100, stores it, and returns the stored split on
  every later call.
\<close>

theorem get_idx_split_partition:
  assumes "mset xs = mset [0..<tot]"
    and "mset (fst (shuffle g [0..<len self])) = mset [0..<len self]"
    and "splits self = None"
  shows "(let s = idx_split_of xs in
            mset (train s @ val s @ test s) = mset [0..<tot] \<and>
            distinct (train s @ val s @ test s) \<and>
            length (train s) = nat \<lfloor>(8 / 10) * real tot\<rfloor> \<and>
            length (val s) = nat \<lfloor>(1 / 10) * real tot\<rfloor> \<and>
            length (test s) = tot - length (train s) - length (val s) \<and>
            length (train s) + length (val s) + length (test s) = tot)
       \<and> (let s = fst (get_idx_split shuffle g self);
               self' = fst (snd (get_idx_split shuffle g self)) in
            mset (train s @ val s @ test s) = mset [0..<1000] \<and>
            distinct (train s @ val s @ test s) \<and>
            length (train s) = 800 \<and> length (val s) = 100 \<and> length (test s) = 100 \<and>
            splits self' = Some s \<and>
            fst (get_idx_split later_shuffle later_g self') = s)"
proof -
  have l: "len self = 1000" by (simp add: len_def)
  obtain ys g' where sh: "shuffle g [0..<len self] = (ys, g')" by (cases "shuffle g [0..<len self]")
  from assms(2) sh have m: "mset ys = mset [0..<1000]" by (simp add: l)
  have r: "get_idx_split shuffle g self = (idx_split_of ys, self\<lparr>splits := Some (idx_split_of ys)\<rparr>, g')"
    by (simp add: get_idx_split_def assms(3) sh Let_def)
  have again: "fst (get_idx_split later_shuffle later_g (self\<lparr>splits := Some (idx_split_of ys)\<rparr>)) = idx_split_of ys"
    by (simp add: get_idx_split_def)
  have f: "nat \<lfloor>(8 / 10) * real (1000::nat)\<rfloor> = 800" "nat \<lfloor>(1 / 10) * real (1000::nat)\<rfloor> = 100"
    by (simp_all add: floor_eight_tenths floor_one_tenth)
  from idx_split_of_partition[OF m] have P:
    "mset (train (idx_split_of ys) @ val (idx_split_of ys) @ test (idx_split_of ys)) = mset [0..<1000]"
    "distinct (train (idx_split_of ys) @ val (idx_split_of ys) @ test (idx_split_of ys))"
    "length (train (idx_split_of ys)) = 800" "length (val (idx_split_of ys)) = 100"
    "length (test (idx_split_of ys)) = 100"
    unfolding f by simp_all
  show ?thesis
    unfolding Let_def r fst_conv snd_conv
    using idx_split_of_partition[OF assms(1)] P again by simp
qed


text \<open>A rotation of \<open>0, ..., 9\<close>, and the split computed for a new object with the stand-in
  generator.\<close>

lemma mset_rotate: "mset (rotate n xs) = mset xs"
proof -
  let ?k = "n mod length xs"
  have "mset (rotate n xs) = mset (drop ?k xs) + mset (take ?k xs)"
    by (simp only: rotate_drop_take mset_append)
  also have "\<dots> = mset (take ?k xs) + mset (drop ?k xs)"
    by (rule add.commute)
  also have "\<dots> = mset (take ?k xs @ drop ?k xs)"
    by (simp only: mset_append)
  also have "\<dots> = mset xs"
    by (simp only: append_take_drop_id)
  finally show ?thesis .
qed

theorem get_idx_split_partition_witness:
  "mset (train (idx_split_of (rotate 3 [0..<10])) @ val (idx_split_of (rotate 3 [0..<10]))
          @ test (idx_split_of (rotate 3 [0..<10]))) = mset [0..<10] \<and>
   length (train (idx_split_of (rotate 3 [0..<10]))) = nat \<lfloor>(8 / 10) * real (10::nat)\<rfloor> \<and>
   length (train (fst (get_idx_split rotate_shuffle 7 (init_attrs [] True [])))) = 800 \<and>
   length (val (fst (get_idx_split rotate_shuffle 7 (init_attrs [] True [])))) = 100 \<and>
   length (test (fst (get_idx_split rotate_shuffle 7 (init_attrs [] True [])))) = 100 \<and>
   distinct (train (fst (get_idx_split rotate_shuffle 7 (init_attrs [] True [])))
          @ val (fst (get_idx_split rotate_shuffle 7 (init_attrs [] True [])))
          @ test (fst (get_idx_split rotate_shuffle 7 (init_attrs [] True []))))"
proof -
  have h1: "mset (rotate 3 [0..<10]) = mset [0..<10]"
    by (rule mset_rotate)
  have h2: "mset (fst (rotate_shuffle 7 [0..<len (init_attrs [] True [])]))
      = mset [0..<len (init_attrs [] True [])]"
    unfolding rotate_shuffle_def fst_conv by (rule mset_rotate)
  have h3: "splits (init_attrs [] True []) = None"
    by (simp add: init_attrs_def)
  from get_idx_split_partition[where xs = "rotate 3 [0..<10]" and tot = 10
      and shuffle = rotate_shuffle and g = 7 and self = "init_attrs [] True []"
      and later_shuffle = rotate_shuffle and later_g = 0, OF h1 h2 h3]
  show ?thesis
    unfolding Let_def by blast
qed




end
